theory Spec2Isabelle
  imports Main
begin

section \<open>JavaScript values\<close>

text \<open>
  The values that reach the client: \<open>undefined\<close>, \<open>null\<close>, booleans, numbers, strings
  and objects. A number is an integer or \<open>NaN\<close> (the client only ever compares numbers
  with \<open>===\<close>). An object carries its identity (its reference) and the list of its
  properties, inherited ones included; an array is an object whose properties are its
  indices and \<open>length\<close>. A property may be present with the value \<open>undefined\<close>.
\<close>

datatype jsval =
    JUndefined
  | JNull
  | JBool bool
  | JNum int
  | JNaN
  | JStr string
  | JObj nat "(string \<times> jsval) list"

text \<open>
  What the client can raise: the TypeError of the language itself, and the exception of
  a constructor of \<open>@adt/json-rpc\<close> that refuses its argument.
\<close>

datatype js_exn = TypeError | ElementError

fun typeof :: "jsval \<Rightarrow> string" where
  "typeof JUndefined = ''undefined''"
| "typeof JNull = ''object''"
| "typeof (JBool b) = ''boolean''"
| "typeof (JNum n) = ''number''"
| "typeof JNaN = ''number''"
| "typeof (JStr s) = ''string''"
| "typeof (JObj r fs) = ''object''"

text \<open>\<open>a === b\<close>: by value on primitives, never on \<open>NaN\<close>, by reference on objects.\<close>

fun js_strict_eq :: "jsval \<Rightarrow> jsval \<Rightarrow> bool" where
  "js_strict_eq JUndefined JUndefined = True"
| "js_strict_eq JNull JNull = True"
| "js_strict_eq (JBool a) (JBool b) = (a = b)"
| "js_strict_eq (JNum a) (JNum b) = (a = b)"
| "js_strict_eq (JStr a) (JStr b) = (a = b)"
| "js_strict_eq (JObj r fs) (JObj r' fs') = (r = r')"
| "js_strict_eq _ _ = False"

text \<open>Whether a property list has the key \<open>k\<close>, and the value it holds there.\<close>

definition has_prop :: "(string \<times> jsval) list \<Rightarrow> string \<Rightarrow> bool" where
  "has_prop fs k = (case map_of fs k of None \<Rightarrow> False | Some v \<Rightarrow> True)"

definition get_prop :: "(string \<times> jsval) list \<Rightarrow> string \<Rightarrow> jsval" where
  "get_prop fs k = (case map_of fs k of None \<Rightarrow> JUndefined | Some v \<Rightarrow> v)"

text \<open>\<open>k in v\<close> raises a TypeError unless \<open>v\<close> is an object.\<close>

fun js_in :: "string \<Rightarrow> jsval \<Rightarrow> js_exn + bool" where
  "js_in k (JObj r fs) = Inr (has_prop fs k)"
| "js_in k v = Inl TypeError"

text \<open>
  \<open>v.k\<close> raises a TypeError on \<open>undefined\<close> and \<open>null\<close>, and reads \<open>undefined\<close> where
  the property is absent. The client reads the properties \<open>id\<close>, \<open>result\<close>, \<open>error\<close>,
  \<open>method\<close> and \<open>params\<close> only, which no boolean, number or string has.
\<close>

fun js_get :: "jsval \<Rightarrow> string \<Rightarrow> js_exn + jsval" where
  "js_get JUndefined k = Inl TypeError"
| "js_get JNull k = Inl TypeError"
| "js_get (JObj r fs) k = Inr (get_prop fs k)"
| "js_get v k = Inr JUndefined"

text \<open>\<open>o.k = v\<close> on an object literal under construction.\<close>

fun obj_set :: "string \<Rightarrow> jsval \<Rightarrow> (string \<times> jsval) list \<Rightarrow> (string \<times> jsval) list" where
  "obj_set k v [] = [(k, v)]"
| "obj_set k v ((k', v') # fs) =
     (if k = k' then (k, v) # fs else (k', v') # obj_set k v fs)"

text \<open>Sequencing of evaluations that may raise: the first exception ends the evaluation.\<close>

definition and_then :: "js_exn + 'a \<Rightarrow> ('a \<Rightarrow> js_exn + 'b) \<Rightarrow> js_exn + 'b" where
  "and_then r f = (case r of Inl x \<Rightarrow> Inl x | Inr v \<Rightarrow> f v)"

section \<open>JSON-RPC elements and the reserved errors\<close>

text \<open>
  The three objects of \<open>JsonRpcClient.ERRORS\<close> are created once, when the module is
  loaded, and shared by every client. A value of \<open>err_name\<close> is a reference to one of
  them. Their \<open>code\<close> and \<open>message\<close> are read-only, their \<open>data\<close> is writable and
  lives in the store \<open>errors_data\<close> of the state below.
\<close>

datatype err_name = NO_ERROR | TIMEOUT_EXCEEDED | INVALID_STATE_ERR

fun error_code :: "err_name \<Rightarrow> int" where
  "error_code NO_ERROR = - 32000"
| "error_code TIMEOUT_EXCEEDED = - 32001"
| "error_code INVALID_STATE_ERR = - 32002"

fun error_message :: "err_name \<Rightarrow> string" where
  "error_message NO_ERROR = ''No error''"
| "error_message TIMEOUT_EXCEEDED = ''Waiting for response timeout exceeded''"
| "error_message INVALID_STATE_ERR = ''WebSocket is already in CLOSING or CLOSED state''"

text \<open>
  An element built by a constructor of the package \<open>@adt/json-rpc\<close> is kept as the
  constructor together with the argument it was built from.
  \<open>JsonRpcError v\<close> is \<open>JsonRpcError(v)\<close>, \<open>ERRORS n\<close> is the shared object
  \<open>JsonRpcClient.ERRORS.n\<close>; \<open>JsonRpcResponseError i e\<close> is
  \<open>JsonRpcResponseError({id : i, error : e})\<close>; the other three take an object literal.
\<close>

datatype rpc_error = JsonRpcError jsval | ERRORS err_name

datatype rpc_elem =
    JsonRpcResponseResult "(string \<times> jsval) list"
  | JsonRpcResponseError jsval rpc_error
  | JsonRpcRequest "(string \<times> jsval) list"
  | JsonRpcEvent "(string \<times> jsval) list"

text \<open>
  The package \<open>@adt/json-rpc\<close> is not among the sources, and its constructors validate
  what they are given: a call returns the element or raises. What each constructor
  accepts is a parameter of the model, \<open>lib\<close>; \<open>onMessage\<close> and \<open>filterMessage\<close>
  call the constructors on fields of an inbound message with no guard around the calls.
  \<open>sendRequest\<close> calls one constructor, \<open>JsonRpcResponseError\<close>, on the id of the
  request and the reserved \<open>INVALID_STATE_ERR\<close>; that call is taken to return.
\<close>

record jsonrpc_lib =
  accepts_error :: "jsval \<Rightarrow> bool"
  accepts_response_result :: "(string \<times> jsval) list \<Rightarrow> bool"
  accepts_response_error :: "jsval \<Rightarrow> rpc_error \<Rightarrow> bool"
  accepts_request :: "(string \<times> jsval) list \<Rightarrow> bool"
  accepts_event :: "(string \<times> jsval) list \<Rightarrow> bool"

definition new_error :: "jsonrpc_lib \<Rightarrow> jsval \<Rightarrow> js_exn + rpc_error" where
  "new_error lib v = (if accepts_error lib v then Inr (JsonRpcError v) else Inl ElementError)"

definition new_response_result :: "jsonrpc_lib \<Rightarrow> (string \<times> jsval) list \<Rightarrow> js_exn + rpc_elem" where
  "new_response_result lib ob =
     (if accepts_response_result lib ob then Inr (JsonRpcResponseResult ob) else Inl ElementError)"

definition new_response_error :: "jsonrpc_lib \<Rightarrow> jsval \<Rightarrow> rpc_error \<Rightarrow> js_exn + rpc_elem" where
  "new_response_error lib i e =
     (if accepts_response_error lib i e then Inr (JsonRpcResponseError i e) else Inl ElementError)"

definition new_request :: "jsonrpc_lib \<Rightarrow> (string \<times> jsval) list \<Rightarrow> js_exn + rpc_elem" where
  "new_request lib ob =
     (if accepts_request lib ob then Inr (JsonRpcRequest ob) else Inl ElementError)"

definition new_event :: "jsonrpc_lib \<Rightarrow> (string \<times> jsval) list \<Rightarrow> js_exn + rpc_elem" where
  "new_event lib ob =
     (if accepts_event lib ob then Inr (JsonRpcEvent ob) else Inl ElementError)"

text \<open>
  Modelled from the spec: a library that accepts the elements of the spec's data model.
  An Error has an integer \<open>code\<close> and a string \<open>message\<close>; a Request has a string or
  number \<open>id\<close>, a string \<open>method\<close> and \<open>params\<close> that are a sequence or a mapping
  (an object) or left out; an Event has a string \<open>method\<close> and such \<open>params\<close>; the
  \<open>result\<close> of a ResponseResult is any value, and the \<open>error\<close> of a ResponseError is
  an Error already built.
\<close>

fun is_id :: "jsval \<Rightarrow> bool" where
  "is_id (JStr s) = True"
| "is_id (JNum n) = True"
| "is_id v = False"

fun is_string :: "jsval \<Rightarrow> bool" where
  "is_string (JStr s) = True"
| "is_string v = False"

fun is_integer :: "jsval \<Rightarrow> bool" where
  "is_integer (JNum n) = True"
| "is_integer v = False"

fun is_params :: "jsval \<Rightarrow> bool" where
  "is_params JUndefined = True"
| "is_params (JObj r fs) = True"
| "is_params v = False"

fun is_error :: "jsval \<Rightarrow> bool" where
  "is_error (JObj r fs) = (is_integer (get_prop fs ''code'') \<and> is_string (get_prop fs ''message''))"
| "is_error v = False"

definition spec_lib :: jsonrpc_lib where
  "spec_lib =
     \<lparr> accepts_error = is_error,
       accepts_response_result = (\<lambda>ob. True),
       accepts_response_error = (\<lambda>i e. True),
       accepts_request = (\<lambda>ob. is_id (get_prop ob ''id'') \<and> is_string (get_prop ob ''method'')
                                  \<and> is_params (get_prop ob ''params'')),
       accepts_event = (\<lambda>ob. is_string (get_prop ob ''method'') \<and> is_params (get_prop ob ''params'')) \<rparr>"

text \<open>What a promise settles with, and what a listener receives.\<close>

datatype pvalue = PElem rpc_elem | PErrors err_name | PRaw jsval

datatype pstate = Pending | Resolved pvalue | Rejected pvalue

section \<open>The state of a client and of its collaborators\<close>

text \<open>
  One entry of the message tracker: the object handed to \<open>register\<close> (its \<open>filter\<close> is
  always \<open>filterMessage\<close>, its \<open>context\<close> the client), the deadline, and the promise
  that \<open>register\<close> returned. \<open>timeoutRejectWith\<close> is a reference, not a copy.
\<close>

record entry =
  message :: jsval
  timeoutRejectWith :: err_name
  enableCallbacks :: jsval
  deadline :: nat
  promise :: nat

text \<open>
  \<open>isConnected\<close> is what \<open>transportProvider.isConnected()\<close> returns, \<open>sent\<close> the
  arguments of \<open>transportProvider.send\<close> so far, \<open>disconnects\<close> the number of calls of
  \<open>transportProvider.disconnect\<close>, \<open>emitted\<close> the calls of \<open>emitter.emit\<close> so far (event
  name and arguments), \<open>pending\<close> the tracker's entries, \<open>promises\<close> the state of every
  promise created, \<open>now\<close> the clock in milliseconds.
\<close>

record client =
  messageTimeout :: nat
  messageCheckInterval :: nat
  isConnected :: jsval
  sent :: "jsval list"
  disconnects :: nat
  emitted :: "(string \<times> pvalue list) list"
  errors_data :: "err_name \<Rightarrow> jsval"
  pending :: "entry list"
  promises :: "nat \<Rightarrow> pstate"
  next_promise :: nat
  now :: nat

text \<open>
  A client just constructed with the given timeout and check interval (the defaults are
  5000 and 1000), in a freshly loaded module: nothing sent, emitted or pending, and the
  \<open>data\<close> of the three errors \<open>undefined\<close>.
\<close>

definition new_client :: "nat \<Rightarrow> nat \<Rightarrow> jsval \<Rightarrow> client" where
  "new_client timeout interval conn =
     \<lparr> messageTimeout = timeout, messageCheckInterval = interval, isConnected = conn,
       sent = [], disconnects = 0, emitted = [], errors_data = (\<lambda>n. JUndefined),
       pending = [], promises = (\<lambda>p. Pending), next_promise = 0, now = 0 \<rparr>"

definition emit :: "string \<Rightarrow> pvalue list \<Rightarrow> client \<Rightarrow> client" where
  "emit name args s = s\<lparr> emitted := emitted s @ [(name, args)] \<rparr>"

definition transport_send :: "jsval \<Rightarrow> client \<Rightarrow> client" where
  "transport_send v s = s\<lparr> sent := sent s @ [v] \<rparr>"

text \<open>A new promise in the given state; a promise settles once, later attempts do nothing.\<close>

definition new_promise :: "pstate \<Rightarrow> client \<Rightarrow> nat \<times> client" where
  "new_promise st s =
     (next_promise s,
      s\<lparr> promises := (promises s)(next_promise s := st),
         next_promise := Suc (next_promise s) \<rparr>)"

definition settle :: "nat \<Rightarrow> pstate \<Rightarrow> client \<Rightarrow> client" where
  "settle p st s =
     (if promises s p = Pending then s\<lparr> promises := (promises s)(p := st) \<rparr> else s)"

section \<open>The message tracker\<close>

text \<open>
  Modelled from the spec: the package \<open>@adt/message-tracker\<close> (\<open>MessageTracker\<close>, with
  \<open>register\<close>, \<open>matchMessage\<close> and its periodic check) is not among the sources. The
  spec's contract: \<open>register\<close> creates a pending entry with deadline = now + the
  configured timeout and returns its promise; the check, every \<open>messageCheckInterval\<close>
  milliseconds, rejects the entries past their deadline with their \<open>timeoutRejectWith\<close>
  and removes them; \<open>matchMessage\<close> calls the filter for each pending entry with the
  inbound message, the entry's message, \<open>resolve\<close>, \<open>reject\<close> and the params, and
  returns whether the message was consumed; an entry is removed on match or timeout.
  The repository's test expects the rejection of a timed-out request to be the object
  \<open>JsonRpcClient.ERRORS.TIMEOUT_EXCEEDED\<close> itself (\<open>toBe\<close>).
\<close>

definition register :: "jsval \<Rightarrow> err_name \<Rightarrow> jsval \<Rightarrow> client \<Rightarrow> nat \<times> client" where
  "register msg rejectWith cb s =
     (let (p, s1) = new_promise Pending s
      in (p, s1\<lparr> pending := pending s1 @
                 [\<lparr> message = msg, timeoutRejectWith = rejectWith, enableCallbacks = cb,
                    deadline = now s1 + messageTimeout s1, promise = p \<rparr>] \<rparr>))"

text \<open>
  Modelled from the spec: the \<open>resolve\<close> and \<open>reject\<close> that the tracker hands to the
  filter settle the entry's promise and remove the entry (an entry is removed on match
  or timeout, never both).
\<close>

definition tracker_settle :: "entry \<Rightarrow> pstate \<Rightarrow> client \<Rightarrow> client" where
  "tracker_settle e st s =
     (settle (promise e) st s)\<lparr> pending := filter (\<lambda>x. promise x \<noteq> promise e) (pending s) \<rparr>"

text \<open>
  Modelled from the spec: time passes (\<open>advance\<close>), and the tracker's periodic check
  (\<open>sweep\<close>) rejects every entry whose deadline has been reached with the object its
  \<open>timeoutRejectWith\<close> refers to, and removes it.
\<close>

definition advance :: "nat \<Rightarrow> client \<Rightarrow> client" where
  "advance d s = s\<lparr> now := now s + d \<rparr>"

definition sweep :: "client \<Rightarrow> client" where
  "sweep s =
     fold (\<lambda>e. tracker_settle e (Rejected (PErrors (timeoutRejectWith e))))
          (filter (\<lambda>e. deadline e \<le> now s) (pending s)) s"

section \<open>The client\<close>

text \<open>
  \<open>filter_classify\<close> is the part of \<open>filterMessage\<close> after the test of the ids
  (lines 264 to 283): the values of \<open>msg\<close> and \<open>err\<close>. \<open>"result" in m\<close> comes
  first and raises unless \<open>m\<close> is an object; each constructor is called where the
  source calls it, and an exception ends the evaluation there.
\<close>

definition filter_classify :: "jsonrpc_lib \<Rightarrow> jsval \<Rightarrow> js_exn + (rpc_elem option \<times> bool)" where
  "filter_classify lib m =
     and_then (js_in ''result'' m) (\<lambda>has_result.
     and_then
       (if has_result then
          and_then (js_get m ''id'') (\<lambda>mid.
          and_then (js_get m ''result'') (\<lambda>mresult.
          and_then (new_response_result lib [(''id'', mid), (''result'', mresult)]) (\<lambda>el.
            Inr (Some el))))
        else Inr None) (\<lambda>msg1.
     and_then (js_in ''error'' m) (\<lambda>has_error.
       if has_error then
         and_then (js_get m ''id'') (\<lambda>mid.
         and_then (js_get m ''error'') (\<lambda>merror.
         and_then (new_error lib merror) (\<lambda>err.
         and_then (new_response_error lib mid err) (\<lambda>el.
           Inr (Some el, True)))))
       else Inr (msg1, False))))"

text \<open>
  \<open>filterMessage(o)\<close> for the inbound message \<open>m\<close> and the entry \<open>e\<close>:
  \<open>o.message = m\<close>, \<open>o.current = message e\<close>, \<open>o.params.enableCallbacks\<close> and
  \<open>o.resolve\<close>, \<open>o.reject\<close> those of \<open>e\<close>. The result tells whether \<open>resolve\<close> or
  \<open>reject\<close> was called.
\<close>

definition filterMessage :: "jsonrpc_lib \<Rightarrow> jsval \<Rightarrow> entry \<Rightarrow> client \<Rightarrow> (js_exn + bool) \<times> client" where
  "filterMessage lib m e s =
     (if typeof m = ''undefined'' then (Inr False, s)
      else
        case and_then (js_get m ''id'') (\<lambda>mid.
             and_then (js_get (message e) ''id'') (\<lambda>cid.
               if \<not> js_strict_eq mid cid then Inr None
               else and_then (filter_classify lib m) (\<lambda>r. Inr (Some r)))) of
          Inl x \<Rightarrow> (Inl x, s)
        | Inr None \<Rightarrow> (Inr False, s)
        | Inr (Some (None, err)) \<Rightarrow> (Inr False, s)
        | Inr (Some (Some msg, err)) \<Rightarrow>
            (let s1 = (if js_strict_eq (enableCallbacks e) (JBool True)
                       then emit ''message'' [PRaw m] s else s)
             in (Inr True,
                 if err then tracker_settle e (Rejected (PElem msg)) s1
                 else tracker_settle e (Resolved (PElem msg)) s1)))"

text \<open>
  Modelled from the spec: \<open>matchMessage(m)\<close> of the tracker calls the filter for each
  entry pending when the message arrives, in the order of registration, and returns
  whether some call consumed the message, that is, called \<open>resolve\<close> or \<open>reject\<close>. An
  exception raised by the filter ends the loop and is raised by \<open>matchMessage\<close>.
\<close>

fun match_loop :: "jsonrpc_lib \<Rightarrow> jsval \<Rightarrow> entry list \<Rightarrow> client \<Rightarrow> (js_exn + bool) \<times> client" where
  "match_loop lib m [] s = (Inr False, s)"
| "match_loop lib m (e # es) s =
     (case filterMessage lib m e s of
        (Inl x, s1) \<Rightarrow> (Inl x, s1)
      | (Inr c, s1) \<Rightarrow>
          (case match_loop lib m es s1 of
             (Inl x, s2) \<Rightarrow> (Inl x, s2)
           | (Inr b, s2) \<Rightarrow> (Inr (c \<or> b), s2)))"

definition matchMessage :: "jsonrpc_lib \<Rightarrow> jsval \<Rightarrow> client \<Rightarrow> (js_exn + bool) \<times> client" where
  "matchMessage lib m s = match_loop lib m (pending s) s"

text \<open>
  \<open>connect()\<close> emits \<open>connecting\<close>, calls the transport's \<open>connect\<close> and returns a new
  promise. \<open>connect_then\<close> and \<open>connect_catch\<close> are the two callbacks it leaves on the
  transport's promise, run when that one resolves, or rejects with \<open>e\<close>.
\<close>

definition connect :: "client \<Rightarrow> nat \<times> client" where
  "connect s = new_promise Pending (emit ''connecting'' [] s)"

definition connect_then :: "nat \<Rightarrow> client \<Rightarrow> client" where
  "connect_then p s = settle p (Resolved (PRaw JUndefined)) (emit ''connected'' [] s)"

definition connect_catch :: "nat \<Rightarrow> jsval \<Rightarrow> client \<Rightarrow> client" where
  "connect_catch p e s = settle p (Rejected (PRaw e)) s"

definition sendRequest :: "jsval \<Rightarrow> jsval \<Rightarrow> client \<Rightarrow> (js_exn + nat) \<times> client" where
  "sendRequest req cb s =
     (let s1 = s\<lparr> errors_data := (errors_data s)(TIMEOUT_EXCEEDED := req) \<rparr>
      in if js_strict_eq (isConnected s1) (JBool True)
         then (let (p, s2) = register req TIMEOUT_EXCEEDED cb s1
               in (Inr p, transport_send req s2))
         else (case js_get req ''id'' of
                 Inl x \<Rightarrow> (Inl x, s1)
               | Inr i \<Rightarrow>
                   (let (p, s2) =
                          new_promise
                            (Rejected (PElem (JsonRpcResponseError i (ERRORS INVALID_STATE_ERR)))) s1
                    in (Inr p, s2))))"

definition sendEvent :: "jsval \<Rightarrow> client \<Rightarrow> (js_exn + err_name) \<times> client" where
  "sendEvent evt s =
     (if js_strict_eq (isConnected s) (JBool True)
      then (Inr NO_ERROR, transport_send evt s)
      else (Inr INVALID_STATE_ERR, s))"

text \<open>
  The value of \<open>msg\<close> when \<open>onMessage\<close> reaches its \<open>emit\<close> (lines 190 to 221);
  \<open>None\<close> is \<open>undefined\<close>. The three \<open>if\<close>s keep the order of the source,
  \<open>result\<close>, \<open>error\<close>, \<open>method\<close>, and each calls its constructor at once, so a
  constructor that refuses its argument raises before the later tests are made.
  \<open>rObj\<close> is the object literal of line 184, filled as the source fills it.
\<close>

definition classify :: "jsonrpc_lib \<Rightarrow> jsval \<Rightarrow> js_exn + rpc_elem option" where
  "classify lib m =
     (if typeof m = ''object'' then
        and_then (js_in ''id'' m) (\<lambda>has_id.
          if has_id then
            and_then (js_get m ''id'') (\<lambda>mid.
            let rObj1 = obj_set ''id'' mid [] in
            and_then (js_in ''result'' m) (\<lambda>has_result.
            and_then
              (if has_result then
                 and_then (js_get m ''result'') (\<lambda>mresult.
                 let rObj2 = obj_set ''result'' mresult rObj1 in
                 and_then (new_response_result lib rObj2) (\<lambda>el. Inr (rObj2, Some el)))
               else Inr (rObj1, None)) (\<lambda>(rObj2, msg1).
            and_then (js_in ''error'' m) (\<lambda>has_error.
            and_then
              (if has_error then
                 and_then (js_get m ''id'') (\<lambda>mid'.
                 and_then (js_get m ''error'') (\<lambda>merror.
                 and_then (new_error lib merror) (\<lambda>err.
                 and_then (new_response_error lib mid' err) (\<lambda>el. Inr (Some el)))))
               else Inr msg1) (\<lambda>msg2.
            and_then (js_in ''method'' m) (\<lambda>has_method.
              if has_method then
                and_then (js_get m ''method'') (\<lambda>mmethod.
                and_then (js_get m ''params'') (\<lambda>mparams.
                let rObj3 = obj_set ''params'' mparams (obj_set ''method'' mmethod rObj2) in
                and_then (new_request lib rObj3) (\<lambda>el. Inr (Some el))))
              else Inr msg2))))))
          else
            and_then (js_get m ''method'') (\<lambda>mmethod.
            and_then (js_get m ''params'') (\<lambda>mparams.
            and_then (new_event lib (obj_set ''params'' mparams (obj_set ''method'' mmethod [])))
              (\<lambda>el. Inr (Some el)))))
      else Inr None)"

definition onMessage :: "jsonrpc_lib \<Rightarrow> jsval \<Rightarrow> client \<Rightarrow> (js_exn + unit) \<times> client" where
  "onMessage lib m s =
     (case matchMessage lib m s of
        (Inl x, s1) \<Rightarrow> (Inl x, s1)
      | (Inr matched, s1) \<Rightarrow>
          if \<not> matched then
            (case classify lib m of
               Inl x \<Rightarrow> (Inl x, s1)
             | Inr None \<Rightarrow> (Inr (), emit ''message'' [PRaw JUndefined] s1)
             | Inr (Some msg) \<Rightarrow> (Inr (), emit ''message'' [PElem msg] s1))
          else (Inr (), s1))"

definition onDisconnect :: "jsval \<Rightarrow> client \<Rightarrow> client" where
  "onDisconnect evt s = emit ''disconnected'' [PRaw evt] s"

definition disconnect :: "client \<Rightarrow> client" where
  "disconnect s = s\<lparr> disconnects := Suc (disconnects s) \<rparr>"

section \<open>Predicates of the statements\<close>


text \<open>
  The states the tracker can be in: the promise of every pending entry was created
  before, and every pending message is a value that has properties.
\<close>

definition tracker_ok :: "client \<Rightarrow> bool" where
  "tracker_ok s =
     list_all (\<lambda>e. promise e < next_promise s \<and> message e \<noteq> JUndefined \<and> message e \<noteq> JNull)
       (pending s)"

section \<open>Basic facts\<close>

subsection \<open>Values and sequencing\<close>

lemma js_strict_eq_True [simp]: "js_strict_eq v (JBool True) = (v = JBool True)"
  by (cases v) auto

text \<open>Every value but \<open>NaN\<close> is \<open>===\<close> to itself: a reply that repeats a request's
  id carries an id \<open>===\<close> to it.\<close>

lemma js_strict_eq_same: "v \<noteq> JNaN \<Longrightarrow> js_strict_eq v v"
  by (cases v) auto

lemma and_then_Inr [simp]: "and_then (Inr v) f = f v"
  by (simp add: and_then_def)

lemma and_then_Inl [simp]: "and_then (Inl x) f = Inl x"
  by (simp add: and_then_def)



subsection \<open>The constructors\<close>

lemmas new_defs = new_error_def new_response_result_def new_response_error_def
  new_request_def new_event_def

lemma spec_lib_fields [simp]:
  "accepts_error spec_lib = is_error"
  "accepts_response_result spec_lib ob = True"
  "accepts_response_error spec_lib i e = True"
  "accepts_request spec_lib ob =
     (is_id (get_prop ob ''id'') \<and> is_string (get_prop ob ''method'') \<and> is_params (get_prop ob ''params''))"
  "accepts_event spec_lib ob = (is_string (get_prop ob ''method'') \<and> is_params (get_prop ob ''params''))"
  by (simp_all add: spec_lib_def)

subsection \<open>Classification, case by case\<close>

text \<open>
  An object with an id: the constructor of each field present is called in the order
  \<open>result\<close>, \<open>error\<close>, \<open>method\<close>, the first refusal raises, and otherwise the last
  element built is the classification. An object without id goes to the Event
  constructor.
\<close>

lemma classify_object:
  "classify lib (JObj r fs) =
     (if has_prop fs ''id'' then
        (if has_prop fs ''result'' \<and>
            \<not> accepts_response_result lib [(''id'', get_prop fs ''id''), (''result'', get_prop fs ''result'')]
         then Inl ElementError
         else if has_prop fs ''error'' \<and>
            \<not> (accepts_error lib (get_prop fs ''error'') \<and>
               accepts_response_error lib (get_prop fs ''id'') (JsonRpcError (get_prop fs ''error'')))
         then Inl ElementError
         else if has_prop fs ''method'' then
           (if accepts_request lib
                 (obj_set ''params'' (get_prop fs ''params'') (obj_set ''method'' (get_prop fs ''method'')
                    (if has_prop fs ''result''
                     then [(''id'', get_prop fs ''id''), (''result'', get_prop fs ''result'')]
                     else [(''id'', get_prop fs ''id'')])))
            then Inr (Some (JsonRpcRequest
                 (obj_set ''params'' (get_prop fs ''params'') (obj_set ''method'' (get_prop fs ''method'')
                    (if has_prop fs ''result''
                     then [(''id'', get_prop fs ''id''), (''result'', get_prop fs ''result'')]
                     else [(''id'', get_prop fs ''id'')])))))
            else Inl ElementError)
         else if has_prop fs ''error'' then
           Inr (Some (JsonRpcResponseError (get_prop fs ''id'') (JsonRpcError (get_prop fs ''error''))))
         else if has_prop fs ''result'' then
           Inr (Some (JsonRpcResponseResult [(''id'', get_prop fs ''id''), (''result'', get_prop fs ''result'')]))
         else Inr None)
      else if accepts_event lib [(''method'', get_prop fs ''method''), (''params'', get_prop fs ''params'')]
      then Inr (Some (JsonRpcEvent [(''method'', get_prop fs ''method''), (''params'', get_prop fs ''params'')]))
      else Inl ElementError)"
  by (simp add: classify_def Let_def new_defs)

lemma classify_not_object: "typeof m \<noteq> ''object'' \<Longrightarrow> classify lib m = Inr None"
  by (simp add: classify_def)

lemma classify_null: "classify lib JNull = Inl TypeError"
  by (simp add: classify_def)

lemma filter_classify_object:
  "filter_classify lib (JObj r fs) =
     (if has_prop fs ''result'' \<and>
         \<not> accepts_response_result lib [(''id'', get_prop fs ''id''), (''result'', get_prop fs ''result'')]
      then Inl ElementError
      else if has_prop fs ''error'' then
        (if accepts_error lib (get_prop fs ''error'') \<and>
            accepts_response_error lib (get_prop fs ''id'') (JsonRpcError (get_prop fs ''error''))
         then Inr (Some (JsonRpcResponseError (get_prop fs ''id'') (JsonRpcError (get_prop fs ''error''))), True)
         else Inl ElementError)
      else if has_prop fs ''result''
      then Inr (Some (JsonRpcResponseResult [(''id'', get_prop fs ''id''), (''result'', get_prop fs ''result'')]), False)
      else Inr (None, False))"
  by (simp add: filter_classify_def Let_def new_defs)

subsection \<open>The filter and the loop of the tracker\<close>

lemma emit_fields [simp]:
  "promises (emit n a s) = promises s" "pending (emit n a s) = pending s"
  "emitted (emit n a s) = emitted s @ [(n, a)]" "next_promise (emit n a s) = next_promise s"
  "errors_data (emit n a s) = errors_data s" "sent (emit n a s) = sent s"
  by (simp_all add: emit_def)

lemma promises_tracker_settle:
  "promises (tracker_settle e st s) q =
     (if q = promise e \<and> promises s q = Pending then st else promises s q)"
  by (auto simp: tracker_settle_def settle_def)


lemma filterMessage_unconsumed:
  "filterMessage lib m e s = (r, s1) \<Longrightarrow> r \<noteq> Inr True \<Longrightarrow> s1 = s"
  by (auto simp: filterMessage_def Let_def split: if_splits sum.splits option.splits prod.splits)

lemma match_loop_unmatched:
  "match_loop lib m es s = (Inr False, s1) \<Longrightarrow> s1 = s"
proof (induction es arbitrary: s s1)
  case Nil
  then show ?case by simp
next
  case (Cons e es)
  obtain r sa where f: "filterMessage lib m e s = (r, sa)" by (cases "filterMessage lib m e s")
  with Cons.prems obtain c where r: "r = Inr c" by (cases r) auto
  obtain r2 sb where l: "match_loop lib m es sa = (r2, sb)" by (cases "match_loop lib m es sa")
  with Cons.prems f r obtain b where r2: "r2 = Inr b" by (cases r2) auto
  from Cons.prems f r l r2 have cb: "\<not> c" "\<not> b" and sb: "sb = s1" by auto
  from f r cb have "sa = s" using filterMessage_unconsumed by blast
  moreover from l r2 cb sb have "match_loop lib m es sa = (Inr False, s1)" by simp
  then have "s1 = sa" by (rule Cons.IH)
  ultimately show ?case by simp
qed

lemma filterMessage_object:
  assumes "js_get (message e) ''id'' = Inr cid"
  shows "filterMessage lib (JObj r fs) e s =
     (if js_strict_eq (get_prop fs ''id'') cid then
        (case filter_classify lib (JObj r fs) of
           Inl x \<Rightarrow> (Inl x, s)
         | Inr (None, err) \<Rightarrow> (Inr False, s)
         | Inr (Some msg, err) \<Rightarrow>
             (Inr True,
              tracker_settle e (if err then Rejected (PElem msg) else Resolved (PElem msg))
                (if enableCallbacks e = JBool True then emit ''message'' [PRaw (JObj r fs)] s else s)))
      else (Inr False, s))"
  using assms
  by (simp add: filterMessage_def Let_def split: sum.splits option.splits prod.splits)

section \<open>Classification of unmatched messages\<close>

text \<open>
  C2, as the code has it. The claim reads the \<open>method\<close> field only when the message
  has neither \<open>result\<close> nor \<open>error\<close>. In \<open>onMessage\<close> the three tests are three
  separate \<open>if\<close>s and the one for \<open>method\<close> comes last, so a message with an id, a
  \<open>result\<close> and a \<open>method\<close> is a Request, not a ResponseResult, and its \<open>result\<close>
  is still in the object the Request is built from.
\<close>

theorem C2_counterexample:
  "classify spec_lib (JObj 5 [(''id'', JNum 1), (''result'', JNum 2), (''method'', JStr ''m'')]) =
     Inr (Some (JsonRpcRequest
       [(''id'', JNum 1), (''result'', JNum 2), (''method'', JStr ''m''), (''params'', JUndefined)]))"
  by (simp add: classify_object has_prop_def get_prop_def)

text \<open>
  C2, amended: for every inbound object with an id, the tests for \<open>result\<close>,
  \<open>error\<close> and \<open>method\<close> are all made, in that order, and each one that holds calls
  its constructor at once: ResponseResult, then Error and ResponseError, then Request
  (from an object that holds the id, the \<open>result\<close> when there is one, \<open>method\<close> and
  \<open>params\<close>). A constructor that refuses its argument raises out of the classification.
  When none does, the message is a Request if it has \<open>method\<close>, whatever else it
  has; without \<open>method\<close> it is a ResponseError if it has \<open>error\<close>, else a
  ResponseResult if it has \<open>result\<close>, else nothing.
\<close>

theorem C2_method_last:
  assumes "has_prop fs ''id''"
  shows "classify lib (JObj r fs) =
     (if has_prop fs ''result'' \<and>
         \<not> accepts_response_result lib [(''id'', get_prop fs ''id''), (''result'', get_prop fs ''result'')]
      then Inl ElementError
      else if has_prop fs ''error'' \<and>
         \<not> (accepts_error lib (get_prop fs ''error'') \<and>
            accepts_response_error lib (get_prop fs ''id'') (JsonRpcError (get_prop fs ''error'')))
      then Inl ElementError
      else if has_prop fs ''method'' then
        (if accepts_request lib
              (obj_set ''params'' (get_prop fs ''params'') (obj_set ''method'' (get_prop fs ''method'')
                 (if has_prop fs ''result''
                  then [(''id'', get_prop fs ''id''), (''result'', get_prop fs ''result'')]
                  else [(''id'', get_prop fs ''id'')])))
         then Inr (Some (JsonRpcRequest
              (obj_set ''params'' (get_prop fs ''params'') (obj_set ''method'' (get_prop fs ''method'')
                 (if has_prop fs ''result''
                  then [(''id'', get_prop fs ''id''), (''result'', get_prop fs ''result'')]
                  else [(''id'', get_prop fs ''id'')])))))
         else Inl ElementError)
      else if has_prop fs ''error'' then
        Inr (Some (JsonRpcResponseError (get_prop fs ''id'') (JsonRpcError (get_prop fs ''error''))))
      else if has_prop fs ''result'' then
        Inr (Some (JsonRpcResponseResult [(''id'', get_prop fs ''id''), (''result'', get_prop fs ''result'')]))
      else Inr None)"
  using assms by (simp add: classify_object)

theorem C2_method_last_witness:
  "classify spec_lib (JObj 5 [(''id'', JNum 3), (''result'', JStr ''done''), (''method'', JStr ''update'')]) =
     Inr (Some (JsonRpcRequest
       [(''id'', JNum 3), (''result'', JStr ''done''), (''method'', JStr ''update''),
        (''params'', JUndefined)]))
   \<and> classify spec_lib (JObj 6 [(''id'', JNum 7), (''error'', JStr ''e''), (''method'', JStr ''m'')]) =
     Inl ElementError"
proof -
  have h1: "has_prop [(''id'', JNum 3), (''result'', JStr ''done''), (''method'', JStr ''update'')] ''id''"
    by (simp add: has_prop_def)
  have h2: "has_prop [(''id'', JNum 7), (''error'', JStr ''e''), (''method'', JStr ''m'')] ''id''"
    by (simp add: has_prop_def)
  show ?thesis
    using C2_method_last [OF h1, of spec_lib 5] C2_method_last [OF h2, of spec_lib 6]
    by (simp add: has_prop_def get_prop_def)
qed

text \<open>
  C5, as the code has it. The claim has every object with an id, a \<open>result\<close> and an
  \<open>error\<close> classified as ResponseError. The ResponseError is built from
  \<open>JsonRpcError(m.error)\<close>, which refuses an \<open>error\<close> that is not an Error: with the
  string \<open>"boom"\<close> for \<open>error\<close> the classification raises, and the filter of a pending
  request with that id raises before it calls \<open>reject\<close>, leaving the state as it was.
\<close>

theorem C5_counterexample:
  "classify spec_lib
     (JObj 9 [(''id'', JStr ''1''), (''result'', JNum 3), (''error'', JStr ''boom'')]) = Inl ElementError
   \<and> filterMessage spec_lib
       (JObj 9 [(''id'', JStr ''1''), (''result'', JNum 3), (''error'', JStr ''boom'')])
       \<lparr> message = JObj 1 [(''id'', JStr ''1''), (''method'', JStr ''test'')],
          timeoutRejectWith = TIMEOUT_EXCEEDED, enableCallbacks = JUndefined,
          deadline = 5000, promise = 0 \<rparr>
       (new_client 5000 1000 (JBool True)) = (Inl ElementError, new_client 5000 1000 (JBool True))"
  by (simp add: classify_object filterMessage_object [where cid = "JStr ''1''"] filter_classify_object
      has_prop_def get_prop_def)

text \<open>
  C5, amended: for an inbound object with an id, a \<open>result\<close> and an \<open>error\<close> (and no
  \<open>method\<close>) whose fields the constructors accept (the ResponseResult of the id and
  result, built first, the Error of \<open>error\<close> and the ResponseError), the classification
  is the ResponseError, for unmatched messages and for the filter of a pending request
  with that id alike: the filter calls \<open>reject\<close>, not \<open>resolve\<close>, so a promise still
  pending is rejected with the ResponseError. When a constructor refuses, both raise,
  and the filter leaves the promise pending.
\<close>

theorem C5_error_precedence:
  assumes "has_prop fs ''id''" and "has_prop fs ''result''" and "has_prop fs ''error''"
    and "\<not> has_prop fs ''method''"
    and "js_get (message e) ''id'' = Inr cid" and "js_strict_eq (get_prop fs ''id'') cid"
    and "promises s (promise e) = Pending"
    and "accepted =
           (accepts_response_result lib [(''id'', get_prop fs ''id''), (''result'', get_prop fs ''result'')]
            \<and> accepts_error lib (get_prop fs ''error'')
            \<and> accepts_response_error lib (get_prop fs ''id'') (JsonRpcError (get_prop fs ''error'')))"
  shows "classify lib (JObj r fs) =
           (if accepted
            then Inr (Some (JsonRpcResponseError (get_prop fs ''id'') (JsonRpcError (get_prop fs ''error''))))
            else Inl ElementError)
       \<and> filterMessage lib (JObj r fs) e s =
           (if accepted
            then (Inr True,
                  tracker_settle e
                    (Rejected (PElem (JsonRpcResponseError (get_prop fs ''id'')
                                        (JsonRpcError (get_prop fs ''error'')))))
                    (if enableCallbacks e = JBool True then emit ''message'' [PRaw (JObj r fs)] s else s))
            else (Inl ElementError, s))
       \<and> promises (snd (filterMessage lib (JObj r fs) e s)) (promise e) =
           (if accepted
            then Rejected (PElem (JsonRpcResponseError (get_prop fs ''id'')
                                    (JsonRpcError (get_prop fs ''error''))))
            else Pending)"
  using assms
  by (simp add: classify_object filterMessage_object filter_classify_object promises_tracker_settle)

theorem C5_error_precedence_witness:
  "classify spec_lib
     (JObj 9 [(''id'', JStr ''1''), (''result'', JNum 3),
              (''error'', JObj 10 [(''code'', JNum (- 32601)), (''message'', JStr ''boom'')])]) =
     Inr (Some (JsonRpcResponseError (JStr ''1'')
            (JsonRpcError (JObj 10 [(''code'', JNum (- 32601)), (''message'', JStr ''boom'')]))))
   \<and> promises
        (snd (filterMessage spec_lib
                (JObj 9 [(''id'', JStr ''1''), (''result'', JNum 3),
                         (''error'', JObj 10 [(''code'', JNum (- 32601)), (''message'', JStr ''boom'')])])
                \<lparr> message = JObj 1 [(''id'', JStr ''1''), (''method'', JStr ''test'')],
                   timeoutRejectWith = TIMEOUT_EXCEEDED, enableCallbacks = JUndefined,
                   deadline = 5000, promise = 0 \<rparr>
                (new_client 5000 1000 (JBool True)))) 0 =
     Rejected (PElem (JsonRpcResponseError (JStr ''1'')
            (JsonRpcError (JObj 10 [(''code'', JNum (- 32601)), (''message'', JStr ''boom'')]))))"
  using C5_error_precedence
    [where fs = "[(''id'', JStr ''1''), (''result'', JNum 3),
                  (''error'', JObj 10 [(''code'', JNum (- 32601)), (''message'', JStr ''boom'')])]"
       and e = "\<lparr> message = JObj 1 [(''id'', JStr ''1''), (''method'', JStr ''test'')],
           timeoutRejectWith = TIMEOUT_EXCEEDED, enableCallbacks = JUndefined,
           deadline = 5000, promise = 0 \<rparr>"
       and cid = "JStr ''1''" and s = "new_client 5000 1000 (JBool True)" and r = 9
       and lib = spec_lib and accepted = True]
  by (simp add: has_prop_def get_prop_def new_client_def promises_tracker_settle)

text \<open>
  C6, at the input where the code fails. \<open>typeof null\<close> is \<open>"object"\<close>, so \<open>null\<close>
  passes the guard of \<open>onMessage\<close> and \<open>"id" in null\<close> raises a TypeError: the
  classification of \<open>null\<close> raises, and so does \<open>onMessage(null)\<close> on a client with
  no pending request.
\<close>

theorem C6_null_raises:
  "classify lib JNull = Inl TypeError \<and>
   onMessage lib JNull (new_client 5000 1000 (JBool True)) =
     (Inl TypeError, new_client 5000 1000 (JBool True))"
  by (simp add: classify_null onMessage_def matchMessage_def new_client_def)

text \<open>
  C3, as the code has it. The claim has such a message dropped with nothing emitted. The
  \<open>emit\<close> of \<open>onMessage\<close> stands after the classification and outside its guard, so
  it runs for an unmatched message that classifies to nothing: for the string
  \<open>"ping"\<close> a \<open>message\<close> event is emitted with \<open>undefined\<close>.
\<close>

theorem C3_counterexample:
  "onMessage spec_lib (JStr ''ping'') (new_client 5000 1000 (JBool True)) =
     (Inr (), (new_client 5000 1000 (JBool True))\<lparr> emitted := [(''message'', [PRaw JUndefined])] \<rparr>)"
  by (simp add: onMessage_def matchMessage_def new_client_def classify_not_object emit_def)

text \<open>
  C3, amended: an unmatched message leaves the tracker and the promises as they were.
  When it is not an object (its \<open>typeof\<close> is not \<open>"object"\<close>), or is an object with an
  id and neither \<open>result\<close>, \<open>error\<close> nor \<open>method\<close>, it classifies to nothing and
  \<open>onMessage\<close> still emits one \<open>message\<close> event, which carries \<open>undefined\<close>. An
  object without id is handed to the Event constructor with its \<open>method\<close> and
  \<open>params\<close>, \<open>undefined\<close> for what it lacks: when the constructor accepts them the
  Event is emitted, and when it refuses them its exception leaves \<open>onMessage\<close> and
  nothing is emitted.
\<close>

theorem C3_unclassified_emitted:
  assumes "matchMessage lib m s = (Inr False, s1)"
  shows "s1 = s
     \<and> (typeof m \<noteq> ''object'' \<longrightarrow>
          onMessage lib m s = (Inr (), emit ''message'' [PRaw JUndefined] s))
     \<and> (\<forall>r fs. m = JObj r fs \<and> has_prop fs ''id'' \<and> \<not> has_prop fs ''result''
             \<and> \<not> has_prop fs ''error'' \<and> \<not> has_prop fs ''method'' \<longrightarrow>
          onMessage lib m s = (Inr (), emit ''message'' [PRaw JUndefined] s))
     \<and> (\<forall>r fs. m = JObj r fs \<and> \<not> has_prop fs ''id'' \<longrightarrow>
          onMessage lib m s =
            (if accepts_event lib [(''method'', get_prop fs ''method''), (''params'', get_prop fs ''params'')]
             then (Inr (), emit ''message''
                     [PElem (JsonRpcEvent [(''method'', get_prop fs ''method''),
                                           (''params'', get_prop fs ''params'')])] s)
             else (Inl ElementError, s)))"
proof -
  from assms have s1: "s1 = s"
    unfolding matchMessage_def by (rule match_loop_unmatched)
  with assms have mm: "matchMessage lib m s = (Inr False, s)" by simp
  show ?thesis
    using s1 mm by (auto simp: onMessage_def classify_not_object classify_object)
qed

theorem C3_unclassified_emitted_witness:
  "onMessage spec_lib (JNum 5) (new_client 5000 1000 (JBool True)) =
     (Inr (), emit ''message'' [PRaw JUndefined] (new_client 5000 1000 (JBool True)))
   \<and> onMessage spec_lib (JObj 1 [(''id'', JNum 4)]) (new_client 5000 1000 (JBool True)) =
     (Inr (), emit ''message'' [PRaw JUndefined] (new_client 5000 1000 (JBool True)))
   \<and> onMessage spec_lib (JObj 1 [(''method'', JStr ''tick'')]) (new_client 5000 1000 (JBool True)) =
     (Inr (), emit ''message''
        [PElem (JsonRpcEvent [(''method'', JStr ''tick''), (''params'', JUndefined)])]
        (new_client 5000 1000 (JBool True)))
   \<and> onMessage spec_lib (JObj 1 [(''params'', JNum 4)]) (new_client 5000 1000 (JBool True)) =
     (Inl ElementError, new_client 5000 1000 (JBool True))"
proof -
  have h: "matchMessage spec_lib m (new_client 5000 1000 (JBool True)) =
             (Inr False, new_client 5000 1000 (JBool True))" for m
    by (simp add: matchMessage_def new_client_def)
  show ?thesis
    using C3_unclassified_emitted [OF h, of "JNum 5"]
      C3_unclassified_emitted [OF h, of "JObj 1 [(''id'', JNum 4)]"]
      C3_unclassified_emitted [OF h, of "JObj 1 [(''method'', JStr ''tick'')]"]
      C3_unclassified_emitted [OF h, of "JObj 1 [(''params'', JNum 4)]"]
    by (simp add: has_prop_def get_prop_def)
qed

section \<open>Connecting and sending\<close>

text \<open>
  C8: \<open>connect()\<close> emits \<open>connecting\<close> at once and returns a pending promise. When
  the transport's connect resolves, \<open>connected\<close> is emitted (after \<open>connecting\<close>) and
  the promise resolves; when it rejects with \<open>e\<close>, the promise rejects with \<open>e\<close>
  itself and nothing more is emitted.
\<close>

theorem C8_connect:
  "fst (connect s) = next_promise s
   \<and> emitted (snd (connect s)) = emitted s @ [(''connecting'', [])]
   \<and> promises (snd (connect s)) (next_promise s) = Pending
   \<and> emitted (connect_then (next_promise s) (snd (connect s))) =
        emitted s @ [(''connecting'', []), (''connected'', [])]
   \<and> promises (connect_then (next_promise s) (snd (connect s))) (next_promise s) =
        Resolved (PRaw JUndefined)
   \<and> emitted (connect_catch (next_promise s) e (snd (connect s))) =
        emitted s @ [(''connecting'', [])]
   \<and> promises (connect_catch (next_promise s) e (snd (connect s))) (next_promise s) =
        Rejected (PRaw e)"
  by (simp add: connect_def connect_then_def connect_catch_def new_promise_def settle_def emit_def)

text \<open>
  C9: \<open>sendEvent(evt)\<close> returns \<open>NO_ERROR\<close> and hands \<open>evt\<close> to the transport's
  \<open>send\<close> when the transport is connected, and returns \<open>INVALID_STATE_ERR\<close> with no
  \<open>send\<close> when it is not. It always returns an error object: it never raises, and it
  creates no promise and no pending entry.
\<close>

theorem C9_sendEvent:
  "(isConnected s = JBool True \<longrightarrow>
      sendEvent evt s = (Inr NO_ERROR, s\<lparr> sent := sent s @ [evt] \<rparr>))
   \<and> (isConnected s \<noteq> JBool True \<longrightarrow> sendEvent evt s = (Inr INVALID_STATE_ERR, s))
   \<and> (\<exists>n. fst (sendEvent evt s) = Inr n)
   \<and> promises (snd (sendEvent evt s)) = promises s
   \<and> next_promise (snd (sendEvent evt s)) = next_promise s
   \<and> pending (snd (sendEvent evt s)) = pending s"
  by (simp add: sendEvent_def transport_send_def)

theorem C9_sendEvent_witness:
  "sendEvent (JObj 1 [(''method'', JStr ''ping'')]) (new_client 5000 1000 (JBool True)) =
     (Inr NO_ERROR, (new_client 5000 1000 (JBool True))\<lparr> sent := [JObj 1 [(''method'', JStr ''ping'')]] \<rparr>)
   \<and> sendEvent (JObj 1 [(''method'', JStr ''ping'')]) (new_client 5000 1000 (JBool False)) =
     (Inr INVALID_STATE_ERR, new_client 5000 1000 (JBool False))"
  using C9_sendEvent [of "new_client 5000 1000 (JBool True)" "JObj 1 [(''method'', JStr ''ping'')]"]
    C9_sendEvent [of "new_client 5000 1000 (JBool False)" "JObj 1 [(''method'', JStr ''ping'')]"]
  by (simp add: new_client_def)

text \<open>
  C1, as the code has it. The claim has the rejection carry \<open>INVALID_STATE_ERR\<close> with
  its \<open>data\<close> equal to the request. \<open>sendRequest\<close> writes the request to the \<open>data\<close>
  of \<open>TIMEOUT_EXCEEDED\<close> and never to that of \<open>INVALID_STATE_ERR\<close>: on a new
  client that is not connected the rejection is the ResponseError with the request's id
  and \<open>INVALID_STATE_ERR\<close>, whose \<open>data\<close> is \<open>undefined\<close>, not the request.
\<close>

theorem C1_counterexample:
  "fst (sendRequest (JObj 1 [(''id'', JStr ''1''), (''method'', JStr ''test'')]) JUndefined
          (new_client 5000 1000 (JBool False))) = Inr 0
   \<and> promises (snd (sendRequest (JObj 1 [(''id'', JStr ''1''), (''method'', JStr ''test'')]) JUndefined
          (new_client 5000 1000 (JBool False)))) 0 =
       Rejected (PElem (JsonRpcResponseError (JStr ''1'') (ERRORS INVALID_STATE_ERR)))
   \<and> errors_data (snd (sendRequest (JObj 1 [(''id'', JStr ''1''), (''method'', JStr ''test'')]) JUndefined
          (new_client 5000 1000 (JBool False)))) INVALID_STATE_ERR = JUndefined
   \<and> errors_data (snd (sendRequest (JObj 1 [(''id'', JStr ''1''), (''method'', JStr ''test'')]) JUndefined
          (new_client 5000 1000 (JBool False)))) INVALID_STATE_ERR
       \<noteq> JObj 1 [(''id'', JStr ''1''), (''method'', JStr ''test'')]"
  by (simp add: sendRequest_def new_client_def new_promise_def get_prop_def)

text \<open>
  C1, amended: for every request \<open>req\<close> (any value but \<open>undefined\<close> and \<open>null\<close>,
  so that \<open>req.id\<close> can be read), \<open>sendRequest(req)\<close> while \<open>isConnected()\<close> is not
  \<open>true\<close> returns at once a promise already rejected with
  ResponseError\<open>{id : req.id, error : INVALID_STATE_ERR}\<close>. The \<open>data\<close> of
  \<open>INVALID_STATE_ERR\<close> is left as it was, not set to \<open>req\<close>; nothing is registered
  with the tracker, sent or emitted.
\<close>

theorem C1_invalid_state:
  assumes "isConnected s \<noteq> JBool True" and "js_get req ''id'' = Inr i"
  shows "sendRequest req cb s =
           (Inr (next_promise s),
            s\<lparr> errors_data := (errors_data s)(TIMEOUT_EXCEEDED := req),
               promises := (promises s)(next_promise s :=
                 Rejected (PElem (JsonRpcResponseError i (ERRORS INVALID_STATE_ERR)))),
               next_promise := Suc (next_promise s) \<rparr>)
       \<and> promises (snd (sendRequest req cb s)) (next_promise s) =
           Rejected (PElem (JsonRpcResponseError i (ERRORS INVALID_STATE_ERR)))
       \<and> errors_data (snd (sendRequest req cb s)) INVALID_STATE_ERR = errors_data s INVALID_STATE_ERR
       \<and> pending (snd (sendRequest req cb s)) = pending s
       \<and> sent (snd (sendRequest req cb s)) = sent s
       \<and> emitted (snd (sendRequest req cb s)) = emitted s"
  using assms by (simp add: sendRequest_def new_promise_def)

theorem C1_invalid_state_witness:
  "sendRequest (JObj 1 [(''id'', JStr ''1''), (''method'', JStr ''test'')]) JUndefined
     (new_client 5000 1000 (JBool False)) =
     (Inr 0,
      (new_client 5000 1000 (JBool False))
        \<lparr> errors_data := (\<lambda>n. JUndefined)
             (TIMEOUT_EXCEEDED := JObj 1 [(''id'', JStr ''1''), (''method'', JStr ''test'')]),
          promises := (\<lambda>p. Pending)
             (0 := Rejected (PElem (JsonRpcResponseError (JStr ''1'') (ERRORS INVALID_STATE_ERR)))),
          next_promise := 1 \<rparr>)"
  using C1_invalid_state [of "new_client 5000 1000 (JBool False)"
      "JObj 1 [(''id'', JStr ''1''), (''method'', JStr ''test'')]" "JStr ''1''" JUndefined]
  by (simp add: new_client_def get_prop_def)

section \<open>Requests and their replies\<close>

subsection \<open>What the loop of the tracker leaves alone\<close>



lemma snd_match_loop_Cons:
  "snd (match_loop lib m (e # es) s) =
     (case fst (filterMessage lib m e s) of
        Inl x \<Rightarrow> snd (filterMessage lib m e s)
      | Inr c \<Rightarrow> snd (match_loop lib m es (snd (filterMessage lib m e s))))"
  by (simp split: prod.splits sum.splits)




lemma onMessage_pending:
  "pending (snd (onMessage lib m s)) = pending (snd (matchMessage lib m s))"
  by (simp add: onMessage_def split: prod.splits sum.splits option.splits)

subsection \<open>An inbound object against the pending entries\<close>





lemma sendRequest_connected:
  assumes "isConnected s = JBool True"
  shows "sendRequest req cb s =
     (Inr (next_promise s),
      s\<lparr> errors_data := (errors_data s)(TIMEOUT_EXCEEDED := req),
         promises := (promises s)(next_promise s := Pending),
         next_promise := Suc (next_promise s),
         pending := pending s @
           [\<lparr> message = req, timeoutRejectWith = TIMEOUT_EXCEEDED, enableCallbacks = cb,
              deadline = now s + messageTimeout s, promise = next_promise s \<rparr>],
         sent := sent s @ [req] \<rparr>)"
  using assms
  by (simp add: sendRequest_def register_def new_promise_def transport_send_def Let_def)

subsection \<open>The tracker stays well formed\<close>

lemma tracker_ok_new_client: "tracker_ok (new_client t i c)"
  by (simp add: tracker_ok_def new_client_def)

lemma tracker_ok_sendRequest:
  assumes "tracker_ok s" and "req \<noteq> JUndefined" and "req \<noteq> JNull"
  shows "tracker_ok (snd (sendRequest req cb s))"
  using assms
  by (auto simp: tracker_ok_def list_all_iff sendRequest_def register_def new_promise_def
      transport_send_def Let_def split: sum.splits if_splits)

lemma filterMessage_shrinks:
  "next_promise (snd (filterMessage lib m e s)) = next_promise s"
  "set (pending (snd (filterMessage lib m e s))) \<subseteq> set (pending s)"
  by (auto simp: filterMessage_def and_then_def Let_def tracker_settle_def settle_def emit_def
      split: sum.splits option.splits prod.splits if_splits)

lemma match_loop_shrinks:
  "next_promise (snd (match_loop lib m es s)) = next_promise s \<and>
   set (pending (snd (match_loop lib m es s))) \<subseteq> set (pending s)"
proof (induction es arbitrary: s)
  case Nil
  then show ?case by simp
next
  case (Cons e es)
  show ?case
    unfolding snd_match_loop_Cons
    using filterMessage_shrinks [of lib m e s] Cons.IH [of "snd (filterMessage lib m e s)"]
    by (auto split: sum.splits)
qed

lemma tracker_ok_onMessage:
  assumes "tracker_ok s"
  shows "tracker_ok (snd (onMessage lib m s))"
proof -
  have "next_promise (snd (onMessage lib m s)) = next_promise (snd (matchMessage lib m s))"
    by (simp add: onMessage_def emit_def split: prod.splits sum.splits option.splits)
  with match_loop_shrinks [of lib m "pending s" s] assms show ?thesis
    by (auto simp: tracker_ok_def list_all_iff onMessage_pending matchMessage_def)
qed




section \<open>Timeouts and the shared error object\<close>

lemma errors_data_tracker_settle [simp]:
  "errors_data (tracker_settle e st s) = errors_data s"
  by (simp add: tracker_settle_def settle_def)

lemma advance_fields [simp]:
  "now (advance d s) = now s + d" "pending (advance d s) = pending s"
  "promises (advance d s) = promises s" "errors_data (advance d s) = errors_data s"
  by (simp_all add: advance_def)

lemma fold_settle_errors_data:
  "errors_data (fold (\<lambda>e. tracker_settle e (Rejected (PErrors (timeoutRejectWith e)))) due s) =
     errors_data s"
  by (induction due arbitrary: s) simp_all

lemma fold_settle_promise:
  assumes "\<forall>x\<in>set due. promise x = q \<longrightarrow> timeoutRejectWith x = n"
    and "(promises s q = Pending \<and> (\<exists>x\<in>set due. promise x = q))
         \<or> promises s q = Rejected (PErrors n)"
  shows "promises (fold (\<lambda>e. tracker_settle e (Rejected (PErrors (timeoutRejectWith e)))) due s) q =
     Rejected (PErrors n)"
  using assms
proof (induction due arbitrary: s)
  case Nil
  then show ?case by simp
next
  case (Cons e due)
  let ?sa = "tracker_settle e (Rejected (PErrors (timeoutRejectWith e))) s"
  have "(promises ?sa q = Pending \<and> (\<exists>x\<in>set due. promise x = q))
         \<or> promises ?sa q = Rejected (PErrors n)"
    using Cons.prems by (auto simp: promises_tracker_settle)
  moreover have "\<forall>x\<in>set due. promise x = q \<longrightarrow> timeoutRejectWith x = n"
    using Cons.prems(1) by simp
  ultimately show ?case
    using Cons.IH [of ?sa] by simp
qed

lemma sweep_rejects:
  assumes "e \<in> set (pending s)" and "deadline e \<le> now s" and "promises s (promise e) = Pending"
    and "\<forall>x\<in>set (pending s). promise x = promise e \<longrightarrow> timeoutRejectWith x = timeoutRejectWith e"
  shows "promises (sweep s) (promise e) = Rejected (PErrors (timeoutRejectWith e))"
    and "errors_data (sweep s) = errors_data s"
proof -
  show "promises (sweep s) (promise e) = Rejected (PErrors (timeoutRejectWith e))"
    unfolding sweep_def
  proof (rule fold_settle_promise)
    show "\<forall>x\<in>set (filter (\<lambda>e. deadline e \<le> now s) (pending s)).
            promise x = promise e \<longrightarrow> timeoutRejectWith x = timeoutRejectWith e"
      using assms(4) by simp
    show "(promises s (promise e) = Pending \<and>
           (\<exists>x\<in>set (filter (\<lambda>e. deadline e \<le> now s) (pending s)). promise x = promise e))
          \<or> promises s (promise e) = Rejected (PErrors (timeoutRejectWith e))"
      using assms(1,2,3) by auto
  qed
  show "errors_data (sweep s) = errors_data s"
    unfolding sweep_def by (rule fold_settle_errors_data)
qed

text \<open>The check keeps the tracker well formed.\<close>

lemma fold_settle_shrinks:
  "next_promise (fold (\<lambda>e. tracker_settle e (Rejected (PErrors (timeoutRejectWith e)))) due s) =
     next_promise s \<and>
   set (pending (fold (\<lambda>e. tracker_settle e (Rejected (PErrors (timeoutRejectWith e)))) due s))
     \<subseteq> set (pending s)"
proof (induction due arbitrary: s)
  case Nil
  then show ?case by simp
next
  case (Cons e due)
  let ?sa = "tracker_settle e (Rejected (PErrors (timeoutRejectWith e))) s"
  have "next_promise ?sa = next_promise s" "set (pending ?sa) \<subseteq> set (pending s)"
    by (auto simp: tracker_settle_def settle_def)
  with Cons.IH [of ?sa] show ?case by auto
qed

lemma tracker_ok_sweep:
  assumes "tracker_ok s"
  shows "tracker_ok (sweep (advance d s))"
  using assms fold_settle_shrinks [of "filter (\<lambda>e. deadline e \<le> now s + d) (pending s)" "advance d s"]
  by (auto simp: tracker_ok_def list_all_iff sweep_def advance_def)

lemma sendRequest_frame:
  "errors_data (snd (sendRequest req cb t)) TIMEOUT_EXCEEDED = req"
  "errors_data (snd (sendRequest req cb t)) INVALID_STATE_ERR = errors_data t INVALID_STATE_ERR"
  "now (snd (sendRequest req cb t)) = now t"
  "q < next_promise t \<Longrightarrow> promises (snd (sendRequest req cb t)) q = promises t q"
  "x \<in> set (pending t) \<Longrightarrow> x \<in> set (pending (snd (sendRequest req cb t)))"
  "x \<in> set (pending (snd (sendRequest req cb t))) \<Longrightarrow>
     x \<in> set (pending t) \<or> promise x = next_promise t"
  by (auto simp: sendRequest_def register_def new_promise_def transport_send_def Let_def
      split: sum.splits if_splits)

text \<open>
  C10: every call of \<open>sendRequest(req)\<close>, connected or not, leaves \<open>req\<close> in the
  \<open>data\<close> of the shared \<open>TIMEOUT_EXCEEDED\<close>, and the entry it registers holds a
  reference to that object. So after \<open>sendRequest(r1)\<close> on a connected transport and any
  second call \<open>sendRequest(r2)\<close>, the entry of \<open>r1\<close> is still pending, the \<open>data\<close>
  of \<open>TIMEOUT_EXCEEDED\<close> is \<open>r2\<close>, and when the timeout of \<open>r1\<close> has passed its
  promise is rejected with that very object, which carries \<open>r2\<close>.
\<close>

theorem C10_shared_timeout_data:
  assumes ok: "tracker_ok s" and conn: "isConnected s = JBool True"
    and s1: "s1 = snd (sendRequest r1 cb1 s)"
    and s2: "s2 = snd (sendRequest r2 cb2 (s1\<lparr> isConnected := c \<rparr>))"
    and e1: "e1 = \<lparr> message = r1, timeoutRejectWith = TIMEOUT_EXCEEDED, enableCallbacks = cb1,
                    deadline = now s + messageTimeout s, promise = next_promise s \<rparr>"
  shows "errors_data (snd (sendRequest req cb s0)) TIMEOUT_EXCEEDED = req
     \<and> fst (sendRequest r1 cb1 s) = Inr (next_promise s)
     \<and> errors_data s1 TIMEOUT_EXCEEDED = r1
     \<and> e1 \<in> set (pending s2)
     \<and> promises s2 (next_promise s) = Pending
     \<and> errors_data s2 TIMEOUT_EXCEEDED = r2
     \<and> (messageTimeout s \<le> d \<longrightarrow>
          promises (sweep (advance d s2)) (next_promise s) = Rejected (PErrors TIMEOUT_EXCEEDED)
          \<and> errors_data (sweep (advance d s2)) TIMEOUT_EXCEEDED = r2)"
proof -
  let ?p = "next_promise s"
  let ?t = "s1\<lparr> isConnected := c \<rparr>"
  have sr: "sendRequest r1 cb1 s =
     (Inr ?p, s\<lparr> errors_data := (errors_data s)(TIMEOUT_EXCEEDED := r1),
         promises := (promises s)(?p := Pending), next_promise := Suc ?p,
         pending := pending s @ [e1], sent := sent s @ [r1] \<rparr>)"
    unfolding e1 by (rule sendRequest_connected [OF conn])
  have t: "pending s1 = pending s @ [e1]" "promises s1 ?p = Pending" "next_promise s1 = Suc ?p"
    "now s1 = now s"
    by (simp_all add: s1 sr)
  have a: "errors_data (snd (sendRequest req cb s0)) TIMEOUT_EXCEEDED = req"
    by (rule sendRequest_frame)
  have b: "fst (sendRequest r1 cb1 s) = Inr ?p" by (simp add: sr)
  have c: "errors_data s1 TIMEOUT_EXCEEDED = r1" unfolding s1 by (rule sendRequest_frame)
  have d: "e1 \<in> set (pending s2)"
    unfolding s2 by (rule sendRequest_frame) (simp add: t)
  have e: "promises s2 ?p = Pending"
    unfolding s2 using sendRequest_frame(4) [of ?p ?t r2 cb2] by (simp add: t)
  have f: "errors_data s2 TIMEOUT_EXCEEDED = r2" unfolding s2 by (rule sendRequest_frame)
  have n2: "now s2 = now s" unfolding s2 by (simp add: sendRequest_frame t)
  have old: "\<forall>x\<in>set (pending s). promise x < ?p"
    using ok by (simp add: tracker_ok_def list_all_iff)
  have uniq: "\<forall>x\<in>set (pending s2). promise x = ?p \<longrightarrow> timeoutRejectWith x = TIMEOUT_EXCEEDED"
  proof (intro ballI impI)
    fix x assume x: "x \<in> set (pending s2)" and px: "promise x = ?p"
    from x have "x \<in> set (pending ?t) \<or> promise x = next_promise ?t"
      unfolding s2 by (rule sendRequest_frame)
    with px t have "x \<in> set (pending s) \<or> x = e1" by auto
    with px old have "x = e1" by auto
    then show "timeoutRejectWith x = TIMEOUT_EXCEEDED" by (simp add: e1)
  qed
  have g: "promises (sweep (advance d s2)) ?p = Rejected (PErrors TIMEOUT_EXCEEDED)
          \<and> errors_data (sweep (advance d s2)) TIMEOUT_EXCEEDED = r2"
    if le: "messageTimeout s \<le> d"
  proof -
    have pe: "promise e1 = ?p" "timeoutRejectWith e1 = TIMEOUT_EXCEEDED"
      "deadline e1 = now s + messageTimeout s" by (simp_all add: e1)
    have 1: "e1 \<in> set (pending (advance d s2))" using d by simp
    have 2: "deadline e1 \<le> now (advance d s2)" using le by (simp add: pe n2)
    have 3: "promises (advance d s2) (promise e1) = Pending" using e by (simp add: pe)
    have 4: "\<forall>x\<in>set (pending (advance d s2)).
               promise x = promise e1 \<longrightarrow> timeoutRejectWith x = timeoutRejectWith e1"
      using uniq by (simp add: pe)
    from sweep_rejects [OF 1 2 3 4] f show ?thesis by (simp add: pe)
  qed
  from a b c d e f g show ?thesis by blast
qed

theorem C10_shared_timeout_data_witness:
  "promises
     (sweep (advance 5000
        (snd (sendRequest (JObj 2 [(''id'', JStr ''2'')]) JUndefined
           ((snd (sendRequest (JObj 1 [(''id'', JStr ''1'')]) JUndefined
                    (new_client 5000 1000 (JBool True))))\<lparr> isConnected := JBool False \<rparr>))))) 0 =
     Rejected (PErrors TIMEOUT_EXCEEDED)
   \<and> errors_data
     (sweep (advance 5000
        (snd (sendRequest (JObj 2 [(''id'', JStr ''2'')]) JUndefined
           ((snd (sendRequest (JObj 1 [(''id'', JStr ''1'')]) JUndefined
                    (new_client 5000 1000 (JBool True))))\<lparr> isConnected := JBool False \<rparr>)))))
     TIMEOUT_EXCEEDED = JObj 2 [(''id'', JStr ''2'')]"
proof -
  let ?s = "new_client 5000 1000 (JBool True)"
  have ok: "tracker_ok ?s" by (simp add: tracker_ok_def new_client_def)
  have conn: "isConnected ?s = JBool True" by (simp add: new_client_def)
  show ?thesis
    using C10_shared_timeout_data [OF ok conn refl refl refl,
        where ?r1.0 = "JObj 1 [(''id'', JStr ''1'')]" and ?cb1.0 = JUndefined
          and ?r2.0 = "JObj 2 [(''id'', JStr ''2'')]" and ?cb2.0 = JUndefined
          and c = "JBool False" and d = 5000]
    by (simp add: new_client_def)
qed

text \<open>
  C4, at the input where the code fails: two requests sent one after the other on a
  connected transport, no reply, timeout 5000. After 5000 milliseconds the check rejects
  the promise of the first request with \<open>TIMEOUT_EXCEEDED\<close>, and the \<open>data\<close> of that
  object is the second request, not the first.
\<close>

theorem C4_concurrent_timeout_data:
  "promises
     (sweep (advance 5000
        (snd (sendRequest (JObj 2 [(''id'', JStr ''2''), (''method'', JStr ''test'')]) JUndefined
           (snd (sendRequest (JObj 1 [(''id'', JStr ''1''), (''method'', JStr ''test'')]) JUndefined
                   (new_client 5000 1000 (JBool True)))))))) 0 =
     Rejected (PErrors TIMEOUT_EXCEEDED)
   \<and> errors_data
     (sweep (advance 5000
        (snd (sendRequest (JObj 2 [(''id'', JStr ''2''), (''method'', JStr ''test'')]) JUndefined
           (snd (sendRequest (JObj 1 [(''id'', JStr ''1''), (''method'', JStr ''test'')]) JUndefined
                   (new_client 5000 1000 (JBool True))))))))
     TIMEOUT_EXCEEDED = JObj 2 [(''id'', JStr ''2''), (''method'', JStr ''test'')]
   \<and> JObj 2 [(''id'', JStr ''2''), (''method'', JStr ''test'')]
       \<noteq> JObj 1 [(''id'', JStr ''1''), (''method'', JStr ''test'')]"
  by (simp add: sendRequest_def register_def new_promise_def transport_send_def new_client_def
      sweep_def advance_def tracker_settle_def settle_def Let_def)

end
